theory Spec2Isabelle
  imports Main "HOL-Library.Sublist"
begin

section \<open>The session viewer of \<^verbatim>\<open>frontend/src/main.ts\<close>\<close>

text \<open>
  The viewer is one browser script. Its inputs come from the host: the parsed query
  string of the page URL, the outcome of one \<^verbatim>\<open>fetch\<close>, the events of the
  streaming SDK, the events of the video element and the timer queue. The model
  passes the page state explicitly; every call the script makes to the outside
  (network, SDK constructor, fullscreen, play, window.close) is appended to a
  trace of effects. Console output changes nothing the script reads and is left out.
\<close>

subsection \<open>JavaScript values\<close>

text \<open>
  A value that is a string, \<^verbatim>\<open>null\<close> or \<^verbatim>\<open>undefined\<close> is a
  \<^typ>\<open>string option\<close>. Such a value is falsy when it is missing or the empty string.
\<close>

definition truthy :: "string option \<Rightarrow> bool" where
  "truthy v = (case v of None \<Rightarrow> False | Some s \<Rightarrow> s \<noteq> [])"

text \<open>\<^verbatim>\<open>a || b\<close> on such values.\<close>

definition js_or :: "string option \<Rightarrow> string option \<Rightarrow> string option" where
  "js_or a b = (if truthy a then a else b)"

text \<open>\<^verbatim>\<open>v || 'literal'\<close>, whose result is always a string.\<close>

definition or_default :: "string option \<Rightarrow> string \<Rightarrow> string" where
  "or_default v d = (case v of None \<Rightarrow> d | Some s \<Rightarrow> if s \<noteq> [] then s else d)"

text \<open>\<^verbatim>\<open>s.includes(t)\<close>: \<open>t\<close> occurs in \<open>s\<close> as a contiguous run.\<close>

definition js_includes :: "string \<Rightarrow> string \<Rightarrow> bool" where
  "js_includes s t = sublist t s"

text \<open>A thrown error, read only through \<^verbatim>\<open>err.message\<close>.\<close>

record js_error =
  message :: "string option"

definition Error :: "string \<Rightarrow> js_error" where
  "Error msg = \<lparr>message = Some msg\<rparr>"

subsection \<open>Inputs\<close>

text \<open>
  \<^verbatim>\<open>URLSearchParams\<close>: the name/value pairs of the query string in order;
  \<^verbatim>\<open>get\<close> returns the first value stored under a name, \<^verbatim>\<open>null\<close> when there is none.
\<close>

definition get :: "(string \<times> string) list \<Rightarrow> string \<Rightarrow> string option" where
  "get params name = map_of params name"

text \<open>
  The body of the sessions listing, in the shape the viewer reads:
  \<^verbatim>\<open>{ active_sessions: [{ local_session_id, session_id, access_token }, ...] }\<close>,
  every field optional.
\<close>

record session =
  local_session_id :: "string option"
  session_id :: "string option"
  access_token :: "string option"

record sessions_body =
  active_sessions :: "session list option"

record http_response =
  ok :: bool
  statusText :: string
  json :: "js_error + sessions_body"

text \<open>
  What the host answers during \<^verbatim>\<open>main\<close>: the fetch (rejected, or a response),
  \<^verbatim>\<open>requestFullscreen\<close> (absent, resolved or rejected) and the SDK constructor
  (returns, or throws).
\<close>

datatype fullscreen = NoFullscreenApi | FullscreenResolved | FullscreenRejected

record env =
  fetch_result :: "js_error + http_response"
  fullscreen_result :: fullscreen
  constructor_throws :: "js_error option"

type_synonym media_stream = nat

record sdk_event =
  detail :: "media_stream option"

datatype event_name =
  STREAM_READY | STREAM_DISCONNECTED | AVATAR_START_TALKING | AVATAR_STOP_TALKING | ERROR_EVENT

datatype callback = CloseWindow | TimeoutCheck

datatype effect =
    Fetch string
  | RequestFullscreen
  | NewStreamingAvatar string
  | Play
  | WindowClose
  | StopTracks media_stream

subsection \<open>The page\<close>

text \<open>
  The three elements' inline \<^verbatim>\<open>style.display\<close>, the error text, the video
  element's stream and handlers, the global \<^verbatim>\<open>avatar\<close> (a client is known by
  the token it was built with), the handlers registered with \<^verbatim>\<open>avatar.on\<close>,
  the pending timers (due time and callback), the clock in milliseconds, and the
  trace of effects.
\<close>

record page =
  loading_display :: string
  video_display :: string
  error_display :: string
  error_text :: string
  srcObject :: "media_stream option"
  onloadedmetadata :: bool
  onerror :: bool
  avatar :: "string option"
  handlers :: "event_name list"
  beforeunload :: bool
  timers :: "(nat \<times> callback) list"
  now :: nat
  effects :: "effect list"

definition perform :: "effect \<Rightarrow> page \<Rightarrow> page" where
  "perform e st = st\<lparr>effects := effects st @ [e]\<rparr>"

definition setTimeout :: "callback \<Rightarrow> nat \<Rightarrow> page \<Rightarrow> page" where
  "setTimeout cb delay st = st\<lparr>timers := timers st @ [(now st + delay, cb)]\<rparr>"

definition showVideo :: "page \<Rightarrow> page" where
  "showVideo st = st\<lparr>loading_display := ''none'', video_display := ''block'',
     error_display := ''none''\<rparr>"

definition showError :: "string \<Rightarrow> page \<Rightarrow> page" where
  "showError msg st = st\<lparr>loading_display := ''none'', error_text := msg,
     error_display := ''block'', video_display := ''none''\<rparr>"

text \<open>
  An element is visible when its inline display is \<^verbatim>\<open>block\<close> and hidden when
  it is \<^verbatim>\<open>none\<close>; these are the only two values the script writes.
\<close>

definition visible :: "string \<Rightarrow> bool" where
  "visible d = (d = ''block'')"

definition hidden :: "string \<Rightarrow> bool" where
  "hidden d = (d = ''none'')"

datatype ui_state = Loading | Playing | Failed

definition ui :: "page \<Rightarrow> ui_state option" where
  "ui st =
    (if visible (loading_display st) \<and> hidden (video_display st) \<and> hidden (error_display st)
       then Some Loading
     else if hidden (loading_display st) \<and> visible (video_display st) \<and> hidden (error_display st)
       then Some Playing
     else if hidden (loading_display st) \<and> hidden (video_display st) \<and> visible (error_display st)
       then Some Failed
     else None)"

subsection \<open>Initialization\<close>

text \<open>Line 10: the session identifier taken from the query string.\<close>

definition sessionId :: "(string \<times> string) list \<Rightarrow> string option" where
  "sessionId params = js_or (get params ''local_session_id'') (get params ''session_id'')"

text \<open>Lines 38-40: \<^verbatim>\<open>data.active_sessions?.find(...)\<close>, the first record that matches.\<close>

definition matches :: "string \<Rightarrow> session \<Rightarrow> bool" where
  "matches sid s = (local_session_id s = Some sid \<or> session_id s = Some sid)"

definition find_session :: "string \<Rightarrow> sessions_body \<Rightarrow> session option" where
  "find_session sid data =
    (case active_sessions data of None \<Rightarrow> None | Some xs \<Rightarrow> find (matches sid) xs)"

text \<open>Lines 139-146: the \<^verbatim>\<open>catch\<close> block of \<^verbatim>\<open>main\<close>.\<close>

definition catch_block :: "js_error \<Rightarrow> page \<Rightarrow> page" where
  "catch_block err st =
    (if (case message err of None \<Rightarrow> False | Some m \<Rightarrow> js_includes m ''fetch'')
     then showError ''Cannot connect to server. Is the backend running on localhost:3001?'' st
     else showError (''Failed to initialize avatar: '' @ or_default (message err) ''Unknown error'') st)"

text \<open>
  Lines 57-137: what \<^verbatim>\<open>main\<close> does once it holds the token. The failure of
  \<^verbatim>\<open>requestFullscreen\<close> is caught on the spot; a throwing constructor leaves the
  \<^verbatim>\<open>try\<close> block with the page as it is then.
\<close>

definition init_streaming :: "string \<Rightarrow> env \<Rightarrow> page \<Rightarrow> (js_error \<times> page) + page" where
  "init_streaming accessToken e st =
    (let st1 = (case fullscreen_result e of
                  NoFullscreenApi \<Rightarrow> st
                | FullscreenResolved \<Rightarrow> perform RequestFullscreen st
                | FullscreenRejected \<Rightarrow> perform RequestFullscreen st);
         st2 = perform (NewStreamingAvatar accessToken) st1
     in case constructor_throws e of
          Some err \<Rightarrow> Inl (err, st2)
        | None \<Rightarrow>
            Inr (setTimeout TimeoutCheck 300000
              (st2\<lparr>avatar := Some accessToken,
                   handlers := handlers st2 @ [STREAM_READY, STREAM_DISCONNECTED,
                     AVATAR_START_TALKING, AVATAR_STOP_TALKING, ERROR_EVENT]\<rparr>)))"

text \<open>Lines 24-138: the \<^verbatim>\<open>try\<close> block; \<open>Inl\<close> is a throw, with the page at the throw.\<close>

definition main_try :: "string \<Rightarrow> env \<Rightarrow> page \<Rightarrow> (js_error \<times> page) + page" where
  "main_try sid e st =
    (let st1 = perform (Fetch ''http://localhost:3001/api/avatar/sessions'') st
     in case fetch_result e of
          Inl err \<Rightarrow> Inl (err, st1)
        | Inr res \<Rightarrow>
            if \<not> ok res then Inl (Error (''Failed to fetch sessions: '' @ statusText res), st1)
            else (case json res of
              Inl err \<Rightarrow> Inl (err, st1)
            | Inr data \<Rightarrow>
                (case find_session sid data of
                  None \<Rightarrow> Inl (Error ''Session not found in active sessions'', st1)
                | Some s \<Rightarrow>
                    (case access_token s of
                      None \<Rightarrow> Inl (Error ''Session found but access_token is missing'', st1)
                    | Some accessToken \<Rightarrow>
                        if accessToken = []
                        then Inl (Error ''Session found but access_token is missing'', st1)
                        else init_streaming accessToken e st1))))"

definition main :: "string \<Rightarrow> env \<Rightarrow> page \<Rightarrow> page" where
  "main sid e st =
    (case main_try sid e st of Inl (err, st') \<Rightarrow> catch_block err st' | Inr st' \<Rightarrow> st')"

text \<open>
  The module's top level (lines 9-21 and 165): without an identifier it shows the
  error and throws, so neither \<^verbatim>\<open>main\<close> nor the registration of the unload
  listener is reached.
\<close>

definition script :: "(string \<times> string) list \<Rightarrow> env \<Rightarrow> page \<Rightarrow> page" where
  "script params e st =
    (case sessionId params of
       None \<Rightarrow> showError ''Missing session_id in URL.'' st
     | Some sid \<Rightarrow>
         if sid = [] then showError ''Missing session_id in URL.'' st
         else (main sid e (st\<lparr>avatar := None\<rparr>))\<lparr>beforeunload := True\<rparr>)"

subsection \<open>Event handlers\<close>

text \<open>Lines 70-102: the handler of \<^verbatim>\<open>STREAM_READY\<close>; the event itself may be missing.\<close>

definition on_stream_ready :: "sdk_event option \<Rightarrow> page \<Rightarrow> page" where
  "on_stream_ready event st =
    (case event of
       None \<Rightarrow> showError ''No video stream received from avatar.'' st
     | Some ev \<Rightarrow>
        (case detail ev of
           None \<Rightarrow> showError ''No video stream received from avatar.'' st
         | Some stream \<Rightarrow>
             st\<lparr>srcObject := Some stream, onloadedmetadata := True, onerror := True\<rparr>))"

text \<open>
  Lines 80-91: the \<^verbatim>\<open>onloadedmetadata\<close> handler calls \<^verbatim>\<open>play()\<close>, whose
  promise the browser resolves or rejects.
\<close>

datatype play_outcome = PlayResolved | PlayRejected

definition loadedmetadata_handler :: "play_outcome \<Rightarrow> page \<Rightarrow> page" where
  "loadedmetadata_handler outcome st =
    (case outcome of
       PlayResolved \<Rightarrow> showVideo (perform Play st)
     | PlayRejected \<Rightarrow>
         showError ''Failed to play avatar video. Check browser permissions for autoplay.''
           (perform Play st))"

text \<open>Lines 94-97.\<close>

definition video_error_handler :: "page \<Rightarrow> page" where
  "video_error_handler st = showError ''Video stream error.'' st"

text \<open>Lines 104-112.\<close>

definition on_stream_disconnected :: "page \<Rightarrow> page" where
  "on_stream_disconnected st =
    setTimeout CloseWindow 2000
      (showError ''Avatar disconnected. Closing...'' (st\<lparr>srcObject := None\<rparr>))"

text \<open>Lines 124-127.\<close>

definition on_error :: "js_error \<Rightarrow> page \<Rightarrow> page" where
  "on_error error st =
    showError (''Avatar error: '' @ or_default (message error) ''Unknown error'') st"

text \<open>Lines 165-179.\<close>

definition unload_handler :: "page \<Rightarrow> page" where
  "unload_handler st =
    (case srcObject st of
       None \<Rightarrow> st
     | Some stream \<Rightarrow> (perform (StopTracks stream) st)\<lparr>srcObject := None\<rparr>)\<lparr>avatar := None\<rparr>"

text \<open>Lines 109-111 and 132-137: the two timer callbacks.\<close>

definition timeout_text :: string where
  "timeout_text = ''Connection timeout. The session may have expired or there may be a network issue. Please try restarting the session.''"

fun run_callback :: "callback \<Rightarrow> page \<Rightarrow> page" where
  "run_callback CloseWindow st = perform WindowClose st"
| "run_callback TimeoutCheck st =
    (case srcObject st of
       None \<Rightarrow> showError timeout_text st
     | Some stream \<Rightarrow> st)"

subsection \<open>The host: event dispatch and the timer queue\<close>

text \<open>
  What can happen to the page after the script has run: the SDK emits an event, the
  video element fires one, the page unloads. A handler runs only where the script
  installed it; \<^verbatim>\<open>main\<close> runs once per page, so each handler is registered at most
  once and runs once per event. The talk events are only logged.
\<close>

datatype signal =
    StreamReady "sdk_event option"
  | StreamDisconnected
  | AvatarStartTalking
  | AvatarStopTalking
  | SdkError js_error
  | LoadedMetadata play_outcome
  | VideoError
  | BeforeUnload

fun dispatch :: "signal \<Rightarrow> page \<Rightarrow> page" where
  "dispatch (StreamReady event) st =
     (if STREAM_READY \<in> set (handlers st) then on_stream_ready event st else st)"
| "dispatch StreamDisconnected st =
     (if STREAM_DISCONNECTED \<in> set (handlers st) then on_stream_disconnected st else st)"
| "dispatch AvatarStartTalking st = st"
| "dispatch AvatarStopTalking st = st"
| "dispatch (SdkError error) st =
     (if ERROR_EVENT \<in> set (handlers st) then on_error error st else st)"
| "dispatch (LoadedMetadata outcome) st =
     (if onloadedmetadata st then loadedmetadata_handler outcome st else st)"
| "dispatch VideoError st = (if onerror st then video_error_handler st else st)"
| "dispatch BeforeUnload st = (if beforeunload st then unload_handler st else st)"

text \<open>
  The timer queue: the pending timer that is due first runs first, timers due at
  the same time in the order they were set; a timer runs once.
\<close>

fun earliest :: "(nat \<times> callback) list \<Rightarrow> (nat \<times> callback) option" where
  "earliest [] = None"
| "earliest (x # xs) =
    (case earliest xs of
       None \<Rightarrow> Some x
     | Some y \<Rightarrow> if fst x \<le> fst y then Some x else Some y)"

definition fire :: "nat \<times> callback \<Rightarrow> page \<Rightarrow> page" where
  "fire x st =
    run_callback (snd x) (st\<lparr>timers := remove1 x (timers st), now := max (now st) (fst x)\<rparr>)"

function run_until :: "nat \<Rightarrow> page \<Rightarrow> page" where
  "run_until t st =
    (case earliest (timers st) of
       None \<Rightarrow> st\<lparr>now := max (now st) t\<rparr>
     | Some x \<Rightarrow>
         if fst x \<le> t then run_until t (fire x st) else st\<lparr>now := max (now st) t\<rparr>)"
  by pat_completeness auto
termination
proof (relation "measure (\<lambda>(t, st). length (timers st))")
  show "wf (measure (\<lambda>(t, st). length (timers st)))"
    by simp
next
  fix t :: nat and st :: page and x :: "nat \<times> callback"
  assume found: "earliest (timers st) = Some x"
  have mem: "earliest xs = Some y \<Longrightarrow> y \<in> set xs" for xs y
    by (induction xs arbitrary: y) (auto split: option.splits if_splits)
  have kept: "timers (run_callback cb s) = timers s" for cb s
    by (cases cb) (simp_all add: perform_def showError_def split: option.splits)
  from found have "x \<in> set (timers st)"
    by (rule mem)
  then have "length (remove1 x (timers st)) < length (timers st)"
    by (simp add: length_remove1) (cases "timers st"; simp)
  then show "((t, fire x st), (t, st)) \<in> measure (\<lambda>(t, st). length (timers st))"
    by (simp add: fire_def kept)
qed

declare run_until.simps [simp del]

text \<open>\<open>d\<close> milliseconds pass.\<close>

definition elapse :: "nat \<Rightarrow> page \<Rightarrow> page" where
  "elapse d st = run_until (now st + d) st"

text \<open>Events and time in one sequence.\<close>

datatype input = Signal signal | Wait nat

fun step :: "input \<Rightarrow> page \<Rightarrow> page" where
  "step (Signal sig) st = dispatch sig st"
| "step (Wait d) st = elapse d st"

fun run :: "input list \<Rightarrow> page \<Rightarrow> page" where
  "run [] st = st"
| "run (i # is) st = run is (step i st)"

subsection \<open>Observations\<close>

text \<open>The tokens of the SDK clients constructed, in order.\<close>

fun constructions :: "effect list \<Rightarrow> string list" where
  "constructions [] = []"
| "constructions (NewStreamingAvatar token # es) = token # constructions es"
| "constructions (e # es) = constructions es"

text \<open>A signal that hands the video element a stream.\<close>

fun attaches :: "signal \<Rightarrow> bool" where
  "attaches (StreamReady (Some ev)) = (detail ev \<noteq> None)"
| "attaches sig = False"

text \<open>An input that hands the video element no stream.\<close>

fun quiet :: "input \<Rightarrow> bool" where
  "quiet (Signal sig) = (\<not> attaches sig)"
| "quiet (Wait d) = True"

text \<open>The page shows the connection-timeout error, and only the error region.\<close>

definition timeout_shown :: "page \<Rightarrow> bool" where
  "timeout_shown st = (error_text st = timeout_text \<and> loading_display st = ''none''
     \<and> video_display st = ''none'' \<and> error_display st = ''block'')"

subsection \<open>Concrete inputs\<close>

text \<open>
  A page as the browser hands it to the script: no inline display set, nothing
  attached, nothing pending.
\<close>

definition example_page :: page where
  "example_page = \<lparr>loading_display = [], video_display = [], error_display = [],
     error_text = [], srcObject = None, onloadedmetadata = False, onerror = False,
     avatar = None, handlers = [], beforeunload = False, timers = [], now = 0, effects = []\<rparr>"

text \<open>A host whose backend answers 200 with the given sessions.\<close>

definition example_env :: "session list \<Rightarrow> env" where
  "example_env xs = \<lparr>fetch_result = Inr \<lparr>ok = True, statusText = ''OK'',
       json = Inr \<lparr>active_sessions = Some xs\<rparr>\<rparr>,
     fullscreen_result = FullscreenResolved, constructor_throws = None\<rparr>"

text \<open>The page after a successful start for session \<^verbatim>\<open>s1\<close> with token \<^verbatim>\<open>tok\<close>.\<close>

definition example_started :: page where
  "example_started =
     main ''s1'' (example_env [\<lparr>local_session_id = None, session_id = Some ''s1'',
       access_token = Some ''tok''\<rparr>]) example_page"

section \<open>Properties\<close>

subsection \<open>The timer queue\<close>

lemma timers_run_callback: "timers (run_callback cb st) = timers st"
  by (cases cb) (simp_all add: perform_def showError_def split: option.splits)

lemma earliest_mem: "earliest xs = Some x \<Longrightarrow> x \<in> set xs"
  by (induction xs arbitrary: x) (auto split: option.splits if_splits)

lemma timers_fire: "timers (fire x st) = remove1 x (timers st)"
  by (simp add: fire_def timers_run_callback)

lemma earliest_None: "earliest xs = None \<longleftrightarrow> xs = []"
  by (induction xs) (auto split: option.splits)

lemma earliest_le: "earliest xs = Some y \<Longrightarrow> x \<in> set xs \<Longrightarrow> fst y \<le> fst x"
proof (induction xs arbitrary: y)
  case Nil
  then show ?case by simp
next
  case (Cons a xs)
  show ?case
  proof (cases "earliest xs")
    case None
    then have "xs = []" by (simp add: earliest_None)
    with Cons.prems None show ?thesis by simp
  next
    case (Some z)
    with Cons.prems Cons.IH [of z] show ?thesis
      by (auto split: if_splits)
  qed
qed

lemma effects_fire:
  "effects (fire x st) = effects st @ (if snd x = CloseWindow then [WindowClose] else [])"
  by (cases "snd x") (simp_all add: fire_def perform_def showError_def split: option.splits)

lemma length_filter_remove1:
  "x \<in> set xs \<Longrightarrow> length (filter P (remove1 x xs)) + (if P x then 1 else 0) = length (filter P xs)"
  by (induction xs) auto

lemma closes_run_until:
  "count_list (effects (run_until t st)) WindowClose =
     count_list (effects st) WindowClose
       + length (filter (\<lambda>x. fst x \<le> t \<and> snd x = CloseWindow) (timers st))"
proof (induction t st rule: run_until.induct)
  case (1 t st)
  show ?case
  proof (cases "earliest (timers st)")
    case None
    then show ?thesis by (simp add: run_until.simps [of t st] earliest_None)
  next
    case (Some x)
    then have mem: "x \<in> set (timers st)" by (rule earliest_mem)
    show ?thesis
    proof (cases "fst x \<le> t")
      case True
      have "count_list (effects (run_until t (fire x st))) WindowClose =
          count_list (effects (fire x st)) WindowClose
            + length (filter (\<lambda>x. fst x \<le> t \<and> snd x = CloseWindow) (timers (fire x st)))"
        using Some True by (rule "1.IH")
      moreover have "run_until t st = run_until t (fire x st)"
        using Some True by (simp add: run_until.simps [of t st])
      ultimately show ?thesis
        using length_filter_remove1 [OF mem, of "\<lambda>x. fst x \<le> t \<and> snd x = CloseWindow"] True
        by (simp add: effects_fire timers_fire split: if_splits)
    next
      case False
      have "\<forall>y \<in> set (timers st). t < fst y"
        using earliest_le [OF Some] False by fastforce
      then have "filter (\<lambda>x. fst x \<le> t \<and> snd x = CloseWindow) (timers st) = []"
        by (auto simp: filter_empty_conv)
      with Some False show ?thesis by (simp add: run_until.simps [of t st])
    qed
  qed
qed

lemma srcObject_fire: "srcObject (fire x st) = srcObject st"
  by (cases "snd x") (simp_all add: fire_def perform_def showError_def split: option.splits)

lemma now_fire: "now (fire x st) = max (now st) (fst x)"
  by (cases "snd x") (simp_all add: fire_def perform_def showError_def split: option.splits)

lemma filter_remove1_skip: "\<not> P x \<Longrightarrow> filter P (remove1 x xs) = filter P xs"
  by (induction xs) auto

lemma timers_run_until: "timers (run_until t st) = filter (\<lambda>x. t < fst x) (timers st)"
proof (induction t st rule: run_until.induct)
  case (1 t st)
  show ?case
  proof (cases "earliest (timers st)")
    case None
    then show ?thesis by (simp add: run_until.simps [of t st] earliest_None)
  next
    case (Some x)
    show ?thesis
    proof (cases "fst x \<le> t")
      case True
      have "timers (run_until t (fire x st)) = filter (\<lambda>x. t < fst x) (timers (fire x st))"
        using Some True by (rule "1.IH")
      moreover have "run_until t st = run_until t (fire x st)"
        using Some True by (simp add: run_until.simps [of t st])
      moreover have "filter (\<lambda>x. t < fst x) (remove1 x (timers st)) = filter (\<lambda>x. t < fst x) (timers st)"
        using True by (simp add: filter_remove1_skip)
      ultimately show ?thesis by (simp add: timers_fire)
    next
      case False
      have "\<forall>y \<in> set (timers st). t < fst y"
        using earliest_le [OF Some] False by fastforce
      then have "filter (\<lambda>x. t < fst x) (timers st) = timers st"
        by simp
      with Some False show ?thesis by (simp add: run_until.simps [of t st])
    qed
  qed
qed

lemma now_run_until: "now (run_until t st) = max (now st) t"
proof (induction t st rule: run_until.induct)
  case (1 t st)
  show ?case
  proof (cases "earliest (timers st)")
    case None
    then show ?thesis by (simp add: run_until.simps [of t st])
  next
    case (Some x)
    show ?thesis
    proof (cases "fst x \<le> t")
      case True
      have "now (run_until t (fire x st)) = max (now (fire x st)) t"
        using Some True by (rule "1.IH")
      moreover have "run_until t st = run_until t (fire x st)"
        using Some True by (simp add: run_until.simps [of t st])
      ultimately show ?thesis using True by (simp add: now_fire)
    next
      case False
      with Some show ?thesis by (simp add: run_until.simps [of t st])
    qed
  qed
qed

lemma srcObject_run_until: "srcObject (run_until t st) = srcObject st"
proof (induction t st rule: run_until.induct)
  case (1 t st)
  show ?case
  proof (cases "earliest (timers st)")
    case None
    then show ?thesis by (simp add: run_until.simps [of t st])
  next
    case (Some x)
    show ?thesis
    proof (cases "fst x \<le> t")
      case True
      have "srcObject (run_until t (fire x st)) = srcObject (fire x st)"
        using Some True by (rule "1.IH")
      moreover have "run_until t st = run_until t (fire x st)"
        using Some True by (simp add: run_until.simps [of t st])
      ultimately show ?thesis by (simp add: srcObject_fire)
    next
      case False
      with Some show ?thesis by (simp add: run_until.simps [of t st])
    qed
  qed
qed

lemma timeout_shown_fire:
  assumes "srcObject st = None" and "timeout_shown st \<or> x = (due, TimeoutCheck)"
  shows "timeout_shown (fire x st)"
  using assms
  by (cases "snd x")
    (auto simp: fire_def perform_def showError_def timeout_shown_def)

lemma timeout_fires:
  assumes "srcObject st = None"
    and "timeout_shown st \<or> (\<exists>due \<le> t. (due, TimeoutCheck) \<in> set (timers st))"
  shows "timeout_shown (run_until t st)"
  using assms
proof (induction t st rule: run_until.induct)
  case (1 t st)
  show ?case
  proof (cases "earliest (timers st)")
    case None
    then have "timers st = []" by (simp add: earliest_None)
    with "1.prems" None show ?thesis
      by (simp add: run_until.simps [of t st] timeout_shown_def)
  next
    case (Some x)
    then have mem: "x \<in> set (timers st)" by (rule earliest_mem)
    show ?thesis
    proof (cases "fst x \<le> t")
      case True
      have run: "run_until t st = run_until t (fire x st)"
        using Some True by (simp add: run_until.simps [of t st])
      have src: "srcObject (fire x st) = None"
        using "1.prems"(1) by (simp add: srcObject_fire)
      have "timeout_shown (fire x st) \<or> (\<exists>due \<le> t. (due, TimeoutCheck) \<in> set (timers (fire x st)))"
      proof (cases "timeout_shown st")
        case True
        then show ?thesis using "1.prems"(1) timeout_shown_fire by blast
      next
        case False
        with "1.prems"(2) obtain due where due: "due \<le> t" "(due, TimeoutCheck) \<in> set (timers st)"
          by blast
        show ?thesis
        proof (cases "x = (due, TimeoutCheck)")
          case True
          then show ?thesis using "1.prems"(1) timeout_shown_fire by blast
        next
          case False
          with due(2) have "(due, TimeoutCheck) \<in> set (remove1 x (timers st))"
            by simp
          with due(1) show ?thesis by (auto simp: timers_fire)
        qed
      qed
      with src have "timeout_shown (run_until t (fire x st))"
        using Some True "1.IH" by blast
      with run show ?thesis by simp
    next
      case False
      have "\<forall>y \<in> set (timers st). t < fst y"
        using earliest_le [OF Some] False by fastforce
      with "1.prems"(2) have "timeout_shown st" by fastforce
      with Some False show ?thesis
        by (simp add: run_until.simps [of t st] timeout_shown_def)
    qed
  qed
qed

subsection \<open>Events and time\<close>

lemma now_on_stream_disconnected: "now (on_stream_disconnected st) = now st"
  by (simp add: on_stream_disconnected_def setTimeout_def showError_def)

lemma timers_on_stream_disconnected:
  "timers (on_stream_disconnected st) = timers st @ [(now st + 2000, CloseWindow)]"
  by (simp add: on_stream_disconnected_def setTimeout_def showError_def)

lemma effects_on_stream_disconnected: "effects (on_stream_disconnected st) = effects st"
  by (simp add: on_stream_disconnected_def setTimeout_def showError_def)

lemma now_dispatch: "now (dispatch sig st) = now st"
  by (cases sig)
    (simp_all add: on_stream_ready_def on_stream_disconnected_def on_error_def
      loadedmetadata_handler_def video_error_handler_def unload_handler_def showError_def
      showVideo_def perform_def setTimeout_def split: option.splits play_outcome.splits)

lemma timers_dispatch:
  "timers (dispatch sig st) =
     timers st @ (if sig = StreamDisconnected \<and> STREAM_DISCONNECTED \<in> set (handlers st)
                  then [(now st + 2000, CloseWindow)] else [])"
  by (cases sig)
    (simp_all add: on_stream_ready_def on_stream_disconnected_def on_error_def
      loadedmetadata_handler_def video_error_handler_def unload_handler_def showError_def
      showVideo_def perform_def setTimeout_def split: option.splits play_outcome.splits)

lemma srcObject_dispatch:
  "srcObject st = None \<Longrightarrow> \<not> attaches sig \<Longrightarrow> srcObject (dispatch sig st) = None"
  by (cases sig rule: attaches.cases)
    (simp_all add: on_stream_ready_def on_stream_disconnected_def on_error_def
      loadedmetadata_handler_def video_error_handler_def unload_handler_def showError_def
      showVideo_def perform_def setTimeout_def split: option.splits play_outcome.splits)

lemma now_step: "now st \<le> now (step i st)"
  by (cases i) (simp_all add: now_dispatch elapse_def now_run_until)

lemma now_run: "now st \<le> now (run ins st)"
proof (induction ins arbitrary: st)
  case Nil
  then show ?case by simp
next
  case (Cons i ins)
  have "now st \<le> now (step i st)" by (rule now_step)
  also have "\<dots> \<le> now (run ins (step i st))" by (rule Cons.IH)
  finally show ?case by simp
qed

lemma pending_run:
  assumes "srcObject st = None" and "(due, cb) \<in> set (timers st)"
    and "\<forall>i \<in> set ins. quiet i" and "now (run ins st) < due"
  shows "srcObject (run ins st) = None \<and> (due, cb) \<in> set (timers (run ins st))"
  using assms
proof (induction ins arbitrary: st)
  case Nil
  then show ?case by simp
next
  case (Cons i ins)
  have later: "now (step i st) < due"
    using now_run [of "step i st" ins] Cons.prems(4) by simp
  have "srcObject (step i st) = None \<and> (due, cb) \<in> set (timers (step i st))"
  proof (cases i)
    case (Signal sig)
    with Cons.prems(3) have "\<not> attaches sig" by simp
    with Cons.prems(1,2) Signal show ?thesis
      by (simp add: srcObject_dispatch timers_dispatch)
  next
    case (Wait d)
    with later have "now st + d < due"
      by (simp add: elapse_def now_run_until)
    with Cons.prems(1,2) Wait show ?thesis
      by (simp add: elapse_def srcObject_run_until timers_run_until)
  qed
  moreover have "\<forall>i \<in> set ins. quiet i" using Cons.prems(3) by simp
  moreover have "now (run ins (step i st)) < due" using Cons.prems(4) by simp
  ultimately show ?case using Cons.IH [of "step i st"] by simp
qed

lemma armed_step:
  "count_list (map snd (timers (step i st))) TimeoutCheck \<le> count_list (map snd (timers st)) TimeoutCheck"
proof (cases i)
  case (Signal sig)
  then show ?thesis by (simp add: timers_dispatch)
next
  case (Wait d)
  have "count_list (map snd (filter P xs)) c \<le> count_list (map snd xs) c" for P c and xs :: "(nat \<times> callback) list"
    by (induction xs) auto
  with Wait show ?thesis by (simp add: elapse_def timers_run_until)
qed

subsection \<open>Helper facts about initialization\<close>

lemma constructions_append: "constructions (xs @ ys) = constructions xs @ constructions ys"
  by (induction xs rule: constructions.induct) simp_all

lemma find_session_none:
  assumes "case active_sessions data of None \<Rightarrow> True
    | Some xs \<Rightarrow> \<forall>s \<in> set xs. local_session_id s \<noteq> Some sid \<and> session_id s \<noteq> Some sid"
  shows "find_session sid data = None"
  using assms by (auto simp: find_session_def find_None_iff matches_def split: option.splits)

lemma not_found_no_fetch_word: "\<not> js_includes ''Session not found in active sessions'' ''fetch''"
  by (simp add: js_includes_def sublist_code)

lemma missing_token_no_fetch_word:
  "\<not> js_includes ''Session found but access_token is missing'' ''fetch''"
  by (simp add: js_includes_def sublist_code)

lemma error_text_catch_block:
  "error_text (catch_block err st) =
    (case message err of
       None \<Rightarrow> ''Failed to initialize avatar: Unknown error''
     | Some m \<Rightarrow>
         if js_includes m ''fetch''
         then ''Cannot connect to server. Is the backend running on localhost:3001?''
         else ''Failed to initialize avatar: '' @ (if m = [] then ''Unknown error'' else m))"
  by (simp add: catch_block_def showError_def or_default_def split: option.splits)

lemma main_try_started:
  assumes "main_try sid e st = Inr st1"
  shows "timers st1 = timers st @ [(now st + 300000, TimeoutCheck)]
    \<and> now st1 = now st \<and> srcObject st1 = srcObject st \<and> main sid e st = st1"
  using assms
  by (auto simp: main_def main_try_def init_streaming_def Let_def perform_def setTimeout_def
      split: sum.splits if_splits option.splits fullscreen.splits)

lemma example_started_eq:
  "example_started = \<lparr>loading_display = [], video_display = [], error_display = [],
     error_text = [], srcObject = None, onloadedmetadata = False, onerror = False,
     avatar = Some ''tok'',
     handlers = [STREAM_READY, STREAM_DISCONNECTED, AVATAR_START_TALKING, AVATAR_STOP_TALKING, ERROR_EVENT],
     beforeunload = False, timers = [(300000, TimeoutCheck)], now = 0,
     effects = [Fetch ''http://localhost:3001/api/avatar/sessions'', RequestFullscreen,
       NewStreamingAvatar ''tok'']\<rparr>"
  by (simp add: example_started_def main_def main_try_def init_streaming_def example_env_def
      example_page_def find_session_def matches_def perform_def setTimeout_def)

subsection \<open>Claims\<close>

text \<open>
  \<^bold>\<open>C9\<close>. After every call of \<^verbatim>\<open>showVideo\<close> or \<^verbatim>\<open>showError\<close> exactly one of the
  three regions is visible and the other two are hidden: the video after \<^verbatim>\<open>showVideo\<close>,
  the error display after \<^verbatim>\<open>showError\<close>; the page is in exactly one of the states
  loading, playing, error.
\<close>

theorem show_exactly_one_region:
  "ui (showVideo st) = Some Playing \<and> ui (showError msg st) = Some Failed
   \<and> hidden (loading_display (showVideo st)) \<and> visible (video_display (showVideo st))
   \<and> hidden (error_display (showVideo st))
   \<and> hidden (loading_display (showError msg st)) \<and> hidden (video_display (showError msg st))
   \<and> visible (error_display (showError msg st))"
  by (simp add: ui_def showVideo_def showError_def visible_def hidden_def)

text \<open>
  \<^bold>\<open>C7\<close>, as the code has it. The identifier is the value of \<^verbatim>\<open>local_session_id\<close> when
  that parameter is present and not empty, and otherwise whatever \<^verbatim>\<open>session_id\<close> holds
  (possibly nothing). The specification says "when present", which fails for a
  \<^verbatim>\<open>local_session_id\<close> that is present and empty, because \<^verbatim>\<open>||\<close> skips the empty string.
\<close>

theorem sessionId_first_truthy:
  "sessionId params =
    (case get params ''local_session_id'' of
       None \<Rightarrow> get params ''session_id''
     | Some v \<Rightarrow> if v \<noteq> [] then Some v else get params ''session_id'')"
  by (simp add: sessionId_def js_or_def truthy_def split: option.splits)

text \<open>
  \<^bold>\<open>C7\<close>, counterexample: for \<^verbatim>\<open>?local_session_id=&session_id=abc\<close> the parameter
  \<^verbatim>\<open>local_session_id\<close> is present with the value \<^verbatim>\<open>""\<close>, yet the identifier is \<^verbatim>\<open>abc\<close>.
\<close>

theorem sessionId_empty_local_counterexample:
  "get [(''local_session_id'', ''''), (''session_id'', ''abc'')] ''local_session_id'' = Some ''''
   \<and> sessionId [(''local_session_id'', ''''), (''session_id'', ''abc'')] = Some ''abc''
   \<and> sessionId [(''local_session_id'', ''''), (''session_id'', ''abc'')]
       \<noteq> get [(''local_session_id'', ''''), (''session_id'', ''abc'')] ''local_session_id''"
  by (simp add: sessionId_def js_or_def truthy_def get_def)

text \<open>
  \<^bold>\<open>C6\<close>. When the query string carries neither \<^verbatim>\<open>local_session_id\<close> nor
  \<^verbatim>\<open>session_id\<close>, the script shows the missing-identifier error and performs no effect
  at all, so no fetch: the trace of effects is what it was.
\<close>

theorem missing_session_id_no_fetch:
  assumes "get params ''local_session_id'' = None" and "get params ''session_id'' = None"
  shows "error_text (script params e st) = ''Missing session_id in URL.''
    \<and> ui (script params e st) = Some Failed
    \<and> effects (script params e st) = effects st"
  using assms
  by (simp add: script_def sessionId_def js_or_def truthy_def showError_def ui_def
      visible_def hidden_def)

theorem missing_session_id_no_fetch_witness:
  "get [(''lang'', ''en'')] ''local_session_id'' = None
   \<and> get [(''lang'', ''en'')] ''session_id'' = None
   \<and> error_text (script [(''lang'', ''en'')] (example_env []) example_page) = ''Missing session_id in URL.''
   \<and> ui (script [(''lang'', ''en'')] (example_env []) example_page) = Some Failed
   \<and> effects (script [(''lang'', ''en'')] (example_env []) example_page) = []"
  using missing_session_id_no_fetch [of "[(''lang'', ''en'')]" "example_env []" example_page]
  by (simp add: get_def example_page_def)

text \<open>
  \<^bold>\<open>C4\<close>. When the fetch succeeds and no record of \<^verbatim>\<open>active_sessions\<close> matches the
  identifier under either key (or the field is absent), \<^verbatim>\<open>main\<close> shows the "not found"
  error; its only effect is the fetch, so no SDK client is constructed.
\<close>

theorem session_not_found:
  assumes "fetch_result e = Inr res" and "ok res" and "json res = Inr data"
    and "case active_sessions data of None \<Rightarrow> True
      | Some xs \<Rightarrow> \<forall>s \<in> set xs. local_session_id s \<noteq> Some sid \<and> session_id s \<noteq> Some sid"
  shows "error_text (main sid e st) = ''Failed to initialize avatar: Session not found in active sessions''
    \<and> ui (main sid e st) = Some Failed
    \<and> effects (main sid e st) = effects st @ [Fetch ''http://localhost:3001/api/avatar/sessions'']
    \<and> constructions (effects (main sid e st)) = constructions (effects st)
    \<and> avatar (main sid e st) = avatar st"
proof -
  have "find_session sid data = None"
    using assms(4) by (rule find_session_none)
  with assms(1-3) have "main sid e st =
      catch_block (Error ''Session not found in active sessions'')
        (perform (Fetch ''http://localhost:3001/api/avatar/sessions'') st)"
    by (simp add: main_def main_try_def)
  then show ?thesis
    using not_found_no_fetch_word
    by (simp add: catch_block_def Error_def or_default_def showError_def perform_def ui_def
        visible_def hidden_def constructions_append)
qed

theorem session_not_found_witness:
  "fetch_result (example_env [\<lparr>local_session_id = Some ''s2'', session_id = None, access_token = Some ''tok''\<rparr>])
     = Inr \<lparr>ok = True, statusText = ''OK'',
         json = Inr \<lparr>active_sessions = Some [\<lparr>local_session_id = Some ''s2'', session_id = None, access_token = Some ''tok''\<rparr>]\<rparr>\<rparr>
   \<and> error_text (main ''s1'' (example_env [\<lparr>local_session_id = Some ''s2'', session_id = None, access_token = Some ''tok''\<rparr>]) example_page)
     = ''Failed to initialize avatar: Session not found in active sessions''
   \<and> effects (main ''s1'' (example_env [\<lparr>local_session_id = Some ''s2'', session_id = None, access_token = Some ''tok''\<rparr>]) example_page)
     = [Fetch ''http://localhost:3001/api/avatar/sessions'']"
  using session_not_found [of
      "example_env [\<lparr>local_session_id = Some ''s2'', session_id = None, access_token = Some ''tok''\<rparr>]"
      "\<lparr>ok = True, statusText = ''OK'',
         json = Inr \<lparr>active_sessions = Some [\<lparr>local_session_id = Some ''s2'', session_id = None, access_token = Some ''tok''\<rparr>]\<rparr>\<rparr>"
      "\<lparr>active_sessions = Some [\<lparr>local_session_id = Some ''s2'', session_id = None, access_token = Some ''tok''\<rparr>]\<rparr>"
      "''s1''" example_page]
  by (simp add: example_env_def example_page_def)

text \<open>
  \<^bold>\<open>C5\<close>. When the record the lookup finds (the first that matches) has no access
  token, or an empty one, \<^verbatim>\<open>main\<close> shows the "missing token" error; its only effect is
  the fetch, so no SDK client is constructed.
\<close>

theorem missing_access_token:
  assumes "fetch_result e = Inr res" and "ok res" and "json res = Inr data"
    and "find_session sid data = Some s" and "\<not> truthy (access_token s)"
  shows "error_text (main sid e st) = ''Failed to initialize avatar: Session found but access_token is missing''
    \<and> ui (main sid e st) = Some Failed
    \<and> effects (main sid e st) = effects st @ [Fetch ''http://localhost:3001/api/avatar/sessions'']
    \<and> constructions (effects (main sid e st)) = constructions (effects st)
    \<and> avatar (main sid e st) = avatar st"
proof -
  from assms have "main sid e st =
      catch_block (Error ''Session found but access_token is missing'')
        (perform (Fetch ''http://localhost:3001/api/avatar/sessions'') st)"
    by (simp add: main_def main_try_def truthy_def split: option.splits)
  then show ?thesis
    using missing_token_no_fetch_word
    by (simp add: catch_block_def Error_def or_default_def showError_def perform_def ui_def
        visible_def hidden_def constructions_append)
qed

theorem missing_access_token_witness:
  "find_session ''s1'' \<lparr>active_sessions = Some [\<lparr>local_session_id = Some ''s1'', session_id = None, access_token = Some ''''\<rparr>]\<rparr>
     = Some \<lparr>local_session_id = Some ''s1'', session_id = None, access_token = Some ''''\<rparr>
   \<and> \<not> truthy (Some '''')
   \<and> error_text (main ''s1'' (example_env [\<lparr>local_session_id = Some ''s1'', session_id = None, access_token = Some ''''\<rparr>]) example_page)
     = ''Failed to initialize avatar: Session found but access_token is missing''
   \<and> effects (main ''s1'' (example_env [\<lparr>local_session_id = Some ''s1'', session_id = None, access_token = Some ''''\<rparr>]) example_page)
     = [Fetch ''http://localhost:3001/api/avatar/sessions'']"
  using missing_access_token [of
      "example_env [\<lparr>local_session_id = Some ''s1'', session_id = None, access_token = Some ''''\<rparr>]"
      "\<lparr>ok = True, statusText = ''OK'',
         json = Inr \<lparr>active_sessions = Some [\<lparr>local_session_id = Some ''s1'', session_id = None, access_token = Some ''''\<rparr>]\<rparr>\<rparr>"
      "\<lparr>active_sessions = Some [\<lparr>local_session_id = Some ''s1'', session_id = None, access_token = Some ''''\<rparr>]\<rparr>"
      "''s1''"
      "\<lparr>local_session_id = Some ''s1'', session_id = None, access_token = Some ''''\<rparr>"
      example_page]
  by (simp add: example_env_def example_page_def find_session_def matches_def truthy_def)

text \<open>
  \<^bold>\<open>C3\<close>, as the code has it. When the first record that matches the identifier
  carries a non-empty access token, \<^verbatim>\<open>main\<close> constructs the SDK client exactly once,
  with exactly that token (and keeps the client when the constructor returns). Some
  matching record with a token is not enough: the lookup stops at the first match.
\<close>

theorem first_match_token_constructs_once:
  assumes "fetch_result e = Inr res" and "ok res" and "json res = Inr data"
    and "find_session sid data = Some s" and "access_token s = Some token" and "token \<noteq> []"
  shows "constructions (effects (main sid e st)) = constructions (effects st) @ [token]
    \<and> (constructor_throws e = None \<longrightarrow> avatar (main sid e st) = Some token)"
  using assms
  by (simp add: main_def main_try_def init_streaming_def Let_def perform_def setTimeout_def
      catch_block_def showError_def constructions_append
      split: option.splits fullscreen.splits)

theorem first_match_token_constructs_once_witness:
  "find_session ''s1'' \<lparr>active_sessions = Some [\<lparr>local_session_id = None, session_id = Some ''s1'', access_token = Some ''tok''\<rparr>]\<rparr>
     = Some \<lparr>local_session_id = None, session_id = Some ''s1'', access_token = Some ''tok''\<rparr>
   \<and> constructor_throws (example_env [\<lparr>local_session_id = None, session_id = Some ''s1'', access_token = Some ''tok''\<rparr>]) = None
   \<and> constructions (effects (main ''s1'' (example_env [\<lparr>local_session_id = None, session_id = Some ''s1'', access_token = Some ''tok''\<rparr>]) example_page))
     = [''tok'']
   \<and> avatar (main ''s1'' (example_env [\<lparr>local_session_id = None, session_id = Some ''s1'', access_token = Some ''tok''\<rparr>]) example_page)
     = Some ''tok''"
  using first_match_token_constructs_once [of
      "example_env [\<lparr>local_session_id = None, session_id = Some ''s1'', access_token = Some ''tok''\<rparr>]"
      "\<lparr>ok = True, statusText = ''OK'',
         json = Inr \<lparr>active_sessions = Some [\<lparr>local_session_id = None, session_id = Some ''s1'', access_token = Some ''tok''\<rparr>]\<rparr>\<rparr>"
      "\<lparr>active_sessions = Some [\<lparr>local_session_id = None, session_id = Some ''s1'', access_token = Some ''tok''\<rparr>]\<rparr>"
      "''s1''"
      "\<lparr>local_session_id = None, session_id = Some ''s1'', access_token = Some ''tok''\<rparr>"
      "''tok''" example_page]
  by (simp add: example_env_def example_page_def find_session_def matches_def)

text \<open>
  \<^bold>\<open>C3\<close>, counterexample: the list holds a record that matches \<^verbatim>\<open>s1\<close> and carries the
  token \<^verbatim>\<open>tok\<close>, but an earlier record matches too and has no token: no client is
  constructed and the "missing token" error is shown.
\<close>

theorem later_match_token_counterexample:
  "matches ''s1'' \<lparr>local_session_id = None, session_id = Some ''s1'', access_token = Some ''tok''\<rparr>
   \<and> \<lparr>local_session_id = None, session_id = Some ''s1'', access_token = Some ''tok''\<rparr>
       \<in> set [\<lparr>local_session_id = Some ''s1'', session_id = None, access_token = None\<rparr>,
               \<lparr>local_session_id = None, session_id = Some ''s1'', access_token = Some ''tok''\<rparr>]
   \<and> constructions (effects (main ''s1''
        (example_env [\<lparr>local_session_id = Some ''s1'', session_id = None, access_token = None\<rparr>,
                      \<lparr>local_session_id = None, session_id = Some ''s1'', access_token = Some ''tok''\<rparr>])
        example_page)) = []
   \<and> error_text (main ''s1''
        (example_env [\<lparr>local_session_id = Some ''s1'', session_id = None, access_token = None\<rparr>,
                      \<lparr>local_session_id = None, session_id = Some ''s1'', access_token = Some ''tok''\<rparr>])
        example_page) = ''Failed to initialize avatar: Session found but access_token is missing''"
  using missing_token_no_fetch_word
  by (simp add: matches_def main_def main_try_def find_session_def example_env_def
      example_page_def catch_block_def Error_def or_default_def showError_def perform_def)

text \<open>
  \<^bold>\<open>C10\<close>. Every error thrown inside the \<^verbatim>\<open>try\<close> block of \<^verbatim>\<open>main\<close> reaches the
  \<^verbatim>\<open>catch\<close> block, and the text displayed depends on the error's message alone: a
  message containing \<^verbatim>\<open>fetch\<close> gives the server-unreachable hint; any other message
  gives \<^verbatim>\<open>Failed to initialize avatar: \<close> followed by the message (by
  \<^verbatim>\<open>Unknown error\<close> when the message is empty or missing), which contains the message.
\<close>

theorem caught_failure_message:
  assumes "main_try sid e st = Inl (err, st')"
  shows "main sid e st = catch_block err st'
    \<and> ui (main sid e st) = Some Failed
    \<and> error_text (main sid e st) =
        (case message err of
           None \<Rightarrow> ''Failed to initialize avatar: Unknown error''
         | Some m \<Rightarrow>
             if js_includes m ''fetch''
             then ''Cannot connect to server. Is the backend running on localhost:3001?''
             else ''Failed to initialize avatar: '' @ (if m = [] then ''Unknown error'' else m))
    \<and> (case message err of
           None \<Rightarrow> True
         | Some m \<Rightarrow> js_includes m ''fetch'' \<or> js_includes (error_text (main sid e st)) m)"
proof -
  have m: "main sid e st = catch_block err st'"
    using assms by (simp add: main_def)
  have u: "ui (catch_block err st') = Some Failed"
    by (simp add: catch_block_def showError_def ui_def visible_def hidden_def)
  have c: "js_includes (''Failed to initialize avatar: '' @ (if m = [] then ''Unknown error'' else m)) m" for m
  proof (cases "m = []")
    case True
    then show ?thesis by (simp add: js_includes_def)
  next
    case False
    have "sublist m (''Failed to initialize avatar: '' @ m)"
      by (rule sublist_append_leftI)
    with False show ?thesis by (simp only: js_includes_def if_False)
  qed
  show ?thesis
    unfolding m using u c
    by (simp add: error_text_catch_block split: option.splits)
qed

theorem caught_failure_message_witness:
  "main_try ''s1'' \<lparr>fetch_result = Inr \<lparr>ok = False, statusText = ''Not Found'', json = Inl (Error ''bad'')\<rparr>,
       fullscreen_result = NoFullscreenApi, constructor_throws = None\<rparr> example_page
     = Inl (Error ''Failed to fetch sessions: Not Found'',
          perform (Fetch ''http://localhost:3001/api/avatar/sessions'') example_page)
   \<and> error_text (main ''s1'' \<lparr>fetch_result = Inr \<lparr>ok = False, statusText = ''Not Found'', json = Inl (Error ''bad'')\<rparr>,
       fullscreen_result = NoFullscreenApi, constructor_throws = None\<rparr> example_page)
     = ''Cannot connect to server. Is the backend running on localhost:3001?''"
  using caught_failure_message [of "''s1''"
      "\<lparr>fetch_result = Inr \<lparr>ok = False, statusText = ''Not Found'', json = Inl (Error ''bad'')\<rparr>,
       fullscreen_result = NoFullscreenApi, constructor_throws = None\<rparr>"
      example_page "Error ''Failed to fetch sessions: Not Found''"
      "perform (Fetch ''http://localhost:3001/api/avatar/sessions'') example_page"]
  by (simp add: main_try_def Error_def js_includes_def sublist_code error_text_catch_block)

text \<open>
  \<^bold>\<open>C1\<close>, as the code has it. Handling a stream-ready event that carries a stream
  attaches the stream to the video element and installs the element's
  \<^verbatim>\<open>onloadedmetadata\<close> and \<^verbatim>\<open>onerror\<close> handlers; it changes no region's display. The
  video becomes visible, and the loading and error regions hidden, when the
  metadata has loaded and \<^verbatim>\<open>play()\<close> has resolved; when \<^verbatim>\<open>play()\<close> is rejected the error
  region is shown instead.
\<close>

theorem stream_ready_attaches:
  assumes "detail ev = Some stream"
  shows "srcObject (on_stream_ready (Some ev) st) = Some stream
    \<and> onloadedmetadata (on_stream_ready (Some ev) st)
    \<and> onerror (on_stream_ready (Some ev) st)
    \<and> loading_display (on_stream_ready (Some ev) st) = loading_display st
    \<and> video_display (on_stream_ready (Some ev) st) = video_display st
    \<and> error_display (on_stream_ready (Some ev) st) = error_display st
    \<and> ui (dispatch (LoadedMetadata PlayResolved) (on_stream_ready (Some ev) st)) = Some Playing
    \<and> ui (dispatch (LoadedMetadata PlayRejected) (on_stream_ready (Some ev) st)) = Some Failed"
  using assms
  by (simp add: on_stream_ready_def loadedmetadata_handler_def showVideo_def showError_def
      perform_def ui_def visible_def hidden_def)

theorem stream_ready_attaches_witness:
  "detail \<lparr>detail = Some 7\<rparr> = Some 7
   \<and> srcObject (on_stream_ready (Some \<lparr>detail = Some 7\<rparr>) example_started) = Some 7
   \<and> video_display (on_stream_ready (Some \<lparr>detail = Some 7\<rparr>) example_started) = []
   \<and> ui (dispatch (LoadedMetadata PlayResolved)
        (on_stream_ready (Some \<lparr>detail = Some 7\<rparr>) example_started)) = Some Playing"
  using stream_ready_attaches [of "\<lparr>detail = Some 7\<rparr>" 7 example_started]
  by (simp add: example_started_eq on_stream_ready_def loadedmetadata_handler_def showVideo_def
      perform_def ui_def visible_def hidden_def)

text \<open>
  \<^bold>\<open>C1\<close>, counterexample: after a successful start the SDK reports an error, then a
  stream-ready event with stream 7. The handler is registered and attaches the
  stream, yet the video stays hidden and the error region visible. And on a page
  that has shown no error, the video is hidden after the metadata has loaded and
  \<^verbatim>\<open>play()\<close> was rejected.
\<close>

theorem stream_ready_keeps_display_counterexample:
  "STREAM_READY \<in> set (handlers (dispatch (SdkError \<lparr>message = None\<rparr>) example_started))
   \<and> hidden (video_display (dispatch (SdkError \<lparr>message = None\<rparr>) example_started))
   \<and> srcObject (dispatch (StreamReady (Some \<lparr>detail = Some 7\<rparr>))
        (dispatch (SdkError \<lparr>message = None\<rparr>) example_started)) = Some 7
   \<and> hidden (video_display (dispatch (StreamReady (Some \<lparr>detail = Some 7\<rparr>))
        (dispatch (SdkError \<lparr>message = None\<rparr>) example_started)))
   \<and> visible (error_display (dispatch (StreamReady (Some \<lparr>detail = Some 7\<rparr>))
        (dispatch (SdkError \<lparr>message = None\<rparr>) example_started)))
   \<and> hidden (video_display (dispatch (LoadedMetadata PlayRejected)
        (dispatch (StreamReady (Some \<lparr>detail = Some 7\<rparr>)) example_started)))"
  by (simp add: example_started_eq on_error_def on_stream_ready_def showError_def
      loadedmetadata_handler_def perform_def or_default_def visible_def hidden_def)

text \<open>
  \<^bold>\<open>C8\<close>. On a stream-disconnected event (the handler being registered) the video
  element's stream is cleared, the disconnect message is shown in the error
  region, and one timer is set that calls \<^verbatim>\<open>window.close()\<close> 2000 ms later: when \<open>d\<close>
  milliseconds pass after the event, the page has attempted exactly one more close
  than it would have without the event if \<open>d\<close> is at least 2000, and none more if
  \<open>d\<close> is less.
\<close>

theorem stream_disconnected_closes:
  assumes "STREAM_DISCONNECTED \<in> set (handlers st)"
  shows "srcObject (dispatch StreamDisconnected st) = None
    \<and> error_text (dispatch StreamDisconnected st) = ''Avatar disconnected. Closing...''
    \<and> ui (dispatch StreamDisconnected st) = Some Failed
    \<and> timers (dispatch StreamDisconnected st) = timers st @ [(now st + 2000, CloseWindow)]
    \<and> count_list (effects (elapse d (dispatch StreamDisconnected st))) WindowClose =
        count_list (effects (elapse d st)) WindowClose + (if 2000 \<le> d then 1 else 0)"
proof -
  have d: "dispatch StreamDisconnected st = on_stream_disconnected st"
    using assms by simp
  have "srcObject (on_stream_disconnected st) = None
    \<and> error_text (on_stream_disconnected st) = ''Avatar disconnected. Closing...''
    \<and> ui (on_stream_disconnected st) = Some Failed"
    by (simp add: on_stream_disconnected_def setTimeout_def showError_def ui_def visible_def
        hidden_def)
  moreover have "count_list (effects (elapse d (on_stream_disconnected st))) WindowClose =
      count_list (effects (elapse d st)) WindowClose + (if 2000 \<le> d then 1 else 0)"
    by (simp add: elapse_def closes_run_until now_on_stream_disconnected
        timers_on_stream_disconnected effects_on_stream_disconnected)
  ultimately show ?thesis
    unfolding d by (simp add: timers_on_stream_disconnected)
qed

theorem stream_disconnected_closes_witness:
  "STREAM_DISCONNECTED \<in> set (handlers example_started)
   \<and> srcObject (dispatch StreamDisconnected example_started) = None
   \<and> timers (dispatch StreamDisconnected example_started) =
       [(300000, TimeoutCheck), (2000, CloseWindow)]
   \<and> count_list (effects (elapse 2000 (dispatch StreamDisconnected example_started))) WindowClose =
       count_list (effects (elapse 2000 example_started)) WindowClose + 1"
  using stream_disconnected_closes [of example_started 2000]
  by (simp add: example_started_eq)

text \<open>
  \<^bold>\<open>C2\<close>. A successful \<^verbatim>\<open>main\<close> sets exactly one timer, the timeout check, due
  300000 ms later. Whatever events and waits follow, as long as none of them
  hands the video element a stream and the 300000 ms have not passed, the timer
  stays pending; when the wait that completes the 300000 ms is over, the page
  shows the connection-timeout error and only the error region, whether or not a
  disconnect event was among the events. No event and no wait ever adds a timeout
  check: their number among the pending timers never grows.
\<close>

theorem connection_timeout:
  assumes "main_try sid e st = Inr st1" and "srcObject st = None"
    and "\<forall>i \<in> set ins. quiet i"
    and "now (run ins st1) < now st + 300000" and "now st + 300000 \<le> now (run ins st1) + d"
  shows "timers st1 = timers st @ [(now st + 300000, TimeoutCheck)]
    \<and> (now st + 300000, TimeoutCheck) \<in> set (timers (run ins st1))
    \<and> error_text (elapse d (run ins st1)) = timeout_text
    \<and> ui (elapse d (run ins st1)) = Some Failed
    \<and> count_list (map snd (timers (step i s))) TimeoutCheck
        \<le> count_list (map snd (timers s)) TimeoutCheck"
proof -
  note started = main_try_started [OF assms(1)]
  have "srcObject st1 = None" and "(now st + 300000, TimeoutCheck) \<in> set (timers st1)"
    using started assms(2) by simp_all
  then have pending: "srcObject (run ins st1) = None
      \<and> (now st + 300000, TimeoutCheck) \<in> set (timers (run ins st1))"
    using assms(3,4) by (rule pending_run)
  then have "timeout_shown (run_until (now (run ins st1) + d) (run ins st1))"
    using assms(5) by (intro timeout_fires) auto
  then have "error_text (elapse d (run ins st1)) = timeout_text
      \<and> ui (elapse d (run ins st1)) = Some Failed"
    by (simp add: elapse_def timeout_shown_def ui_def visible_def hidden_def)
  with started pending show ?thesis
    using armed_step [of i s] by simp
qed

theorem connection_timeout_witness:
  "main_try ''s1'' (example_env [\<lparr>local_session_id = None, session_id = Some ''s1'',
       access_token = Some ''tok''\<rparr>]) example_page = Inr example_started
   \<and> srcObject example_page = None
   \<and> now (run [Signal (SdkError \<lparr>message = None\<rparr>), Wait 1000] example_started) = 1000
   \<and> timers example_started = [(300000, TimeoutCheck)]
   \<and> error_text (elapse 299000 (run [Signal (SdkError \<lparr>message = None\<rparr>), Wait 1000] example_started))
       = timeout_text
   \<and> ui (elapse 299000 (run [Signal (SdkError \<lparr>message = None\<rparr>), Wait 1000] example_started))
       = Some Failed"
proof -
  have a: "main_try ''s1'' (example_env [\<lparr>local_session_id = None, session_id = Some ''s1'',
       access_token = Some ''tok''\<rparr>]) example_page = Inr example_started"
    by (simp add: example_started_def main_def main_try_def init_streaming_def example_env_def
        find_session_def matches_def Let_def)
  have b: "srcObject example_page = None"
    by (simp add: example_page_def)
  have c: "\<forall>i \<in> set [Signal (SdkError \<lparr>message = None\<rparr>), Wait 1000]. quiet i"
    by simp
  have n: "now (run [Signal (SdkError \<lparr>message = None\<rparr>), Wait 1000] example_started) = 1000"
    by (simp add: elapse_def now_run_until on_error_def showError_def example_started_eq)
  have z: "now example_page = 0"
    by (simp add: example_page_def)
  show ?thesis
    using connection_timeout [OF a b c, of 299000] a b n z
    by (simp add: example_page_def)
qed

end
